theory Spec2Isabelle
  imports Main "HOL-Library.Sublist"
begin

text \<open>
  A model of gitload: \<open>parseGitHubUrl\<close> and the URL builders of \<^verbatim>\<open>github-parser.js\<close>, the
  discovery of \<^verbatim>\<open>github-client.js\<close> and the two write loops of \<^verbatim>\<open>downloader.js\<close>. Functions
  that throw return a sum, \<open>Inl\<close> the error; functions with effects take the state of the
  process and return it; what the platform and the network do is a parameter.
\<close>

section \<open>JavaScript string primitives\<close>

text \<open>
  Strings are lists of characters. The sources only compare, split, join and slice
  them, so one \<open>char\<close> stands for one code unit of the JavaScript string.
\<close>

definition startsWith :: "string \<Rightarrow> string \<Rightarrow> bool" where
  \<comment> \<open>\<^verbatim>\<open>s.startsWith(p)\<close>\<close>
  "startsWith s p = (take (length p) s = p)"

definition endsWith :: "string \<Rightarrow> string \<Rightarrow> bool" where
  \<comment> \<open>\<^verbatim>\<open>s.endsWith(p)\<close>, the test behind a regular expression anchored with \<^verbatim>\<open>$\<close>\<close>
  "endsWith s p = (length p \<le> length s \<and> drop (length s - length p) s = p)"

fun includes_str :: "string \<Rightarrow> string \<Rightarrow> bool" where
  \<comment> \<open>\<^verbatim>\<open>s.includes(sub)\<close>: \<open>sub\<close> occurs somewhere in \<open>s\<close>\<close>
  "includes_str [] sub = (sub = [])"
| "includes_str (c # cs) sub = (startsWith (c # cs) sub \<or> includes_str cs sub)"

fun split_on :: "char \<Rightarrow> string \<Rightarrow> string list" where
  \<comment> \<open>\<^verbatim>\<open>s.split(c)\<close> for a one-character separator; the empty string gives one empty piece\<close>
  "split_on c [] = [[]]"
| "split_on c (x # xs) =
     (if x = c then [] # split_on c xs
      else (case split_on c xs of
              [] \<Rightarrow> [[x]]
            | w # ws \<Rightarrow> (x # w) # ws))"

fun join :: "string \<Rightarrow> string list \<Rightarrow> string" where
  \<comment> \<open>\<^verbatim>\<open>parts.join(sep)\<close>\<close>
  "join sep [] = []"
| "join sep [x] = x"
| "join sep (x # y # ys) = x @ sep @ join sep (y # ys)"

definition is_space :: "char \<Rightarrow> bool" where
  \<comment> \<open>the white space and line terminators of \<^verbatim>\<open>String.prototype.trim\<close> that fit in one byte:
      TAB, LF, VT, FF, CR, SP and NBSP\<close>
  "is_space c = (of_char c \<in> {9, 10, 11, 12, 13, 32, 160 :: nat})"

definition trim :: "string \<Rightarrow> string" where
  \<comment> \<open>\<^verbatim>\<open>s.trim()\<close>\<close>
  "trim s = rev (dropWhile is_space (rev (dropWhile is_space s)))"

definition strip_trailing_slashes :: "string \<Rightarrow> string" where
  \<comment> \<open>\<^verbatim>\<open>s.replace(/\/+$/, '')\<close>\<close>
  "strip_trailing_slashes s = rev (dropWhile (\<lambda>c. c = CHR ''/'') (rev s))"

definition strip_git :: "string \<Rightarrow> string" where
  \<comment> \<open>\<^verbatim>\<open>s.replace(/\.git$/, '')\<close>: one trailing \<^verbatim>\<open>.git\<close> is removed\<close>
  "strip_git s = (if endsWith s ''.git'' then take (length s - 4) s else s)"

definition truthy :: "string option \<Rightarrow> bool" where
  \<comment> \<open>truthiness of a value that is a string, \<^verbatim>\<open>null\<close> or \<^verbatim>\<open>undefined\<close>:
      only a non-empty string is truthy\<close>
  "truthy v = (case v of None \<Rightarrow> False | Some s \<Rightarrow> s \<noteq> [])"

definition or_else :: "string option \<Rightarrow> string \<Rightarrow> string" where
  \<comment> \<open>\<^verbatim>\<open>v || d\<close> for such a value\<close>
  "or_else v d = (case v of None \<Rightarrow> d | Some s \<Rightarrow> (if s = [] then d else s))"


section \<open>github-parser.js\<close>

datatype url_type = tree | blob | root

record ParsedGitHubUrl =
  owner :: string
  repo :: string
  ref :: "string option"
  path :: "string option"
  type :: url_type

text \<open>
  The platform's \<^verbatim>\<open>URL\<close> class is not part of the repository. \<open>parseGitHubUrl\<close> reads
  two fields of the object it builds, so the constructor is a parameter of the model:
  a function from the string to those two fields, \<open>None\<close> where \<^verbatim>\<open>new URL\<close> throws.
\<close>

record url_obj =
  hostname :: string
  pathname :: string

type_synonym url_ctor = "string \<Rightarrow> url_obj option"

text \<open>Each \<^verbatim>\<open>throw new Error(...)\<close> of \<open>parseGitHubUrl\<close> is one constructor.\<close>

datatype parse_error =
    InvalidUrlFormat            \<comment> \<open>\<^verbatim>\<open>Invalid URL format\<close>\<close>
  | NotGitHubUrl                \<comment> \<open>\<^verbatim>\<open>URL must be a GitHub URL (github.com)\<close>\<close>
  | MissingOwnerRepo            \<comment> \<open>\<^verbatim>\<open>URL must include owner and repository\<close>\<close>
  | UnsupportedUrlFormat string \<comment> \<open>\<^verbatim>\<open>Unsupported URL format. ... Got: pathType\<close>\<close>
  | MissingRef                  \<comment> \<open>\<^verbatim>\<open>URL must include a branch/ref after /tree/ or /blob/\<close>\<close>

definition clean_url :: "string \<Rightarrow> string" where
  \<comment> \<open>the first two statements: trim, then remove trailing slashes\<close>
  "clean_url url = strip_trailing_slashes (trim url)"

definition pathParts_of :: "url_obj \<Rightarrow> string list" where
  \<comment> \<open>\<^verbatim>\<open>urlObj.pathname.split('/').filter(Boolean)\<close>\<close>
  "pathParts_of urlObj = filter (\<lambda>s. s \<noteq> []) (split_on CHR ''/'' (pathname urlObj))"

definition path_of_parts :: "string list \<Rightarrow> string option" where
  \<comment> \<open>\<^verbatim>\<open>pathParts.slice(4).join('/') || null\<close>\<close>
  "path_of_parts pathParts =
     (let p = join ''/'' (drop 4 pathParts) in if p = [] then None else Some p)"

definition parseGitHubUrl :: "url_ctor \<Rightarrow> string \<Rightarrow> parse_error + ParsedGitHubUrl" where
  "parseGitHubUrl new_URL url =
     (case new_URL (clean_url url) of
        None \<Rightarrow> Inl InvalidUrlFormat
      | Some urlObj \<Rightarrow>
          if \<not> includes_str (hostname urlObj) ''github.com'' then Inl NotGitHubUrl
          else
            let pathParts = pathParts_of urlObj in
            if length pathParts < 2 then Inl MissingOwnerRepo
            else
              let owner' = pathParts ! 0;
                  repo' = strip_git (pathParts ! 1)
              in
              if length pathParts = 2 then
                Inr \<lparr>owner = owner', repo = repo', ref = None, path = None, type = root\<rparr>
              else
                let pathType = pathParts ! 2 in
                if pathType \<noteq> ''tree'' \<and> pathType \<noteq> ''blob'' then
                  Inl (UnsupportedUrlFormat pathType)
                else if length pathParts < 4 then Inl MissingRef
                else
                  Inr \<lparr>owner = owner', repo = repo',
                       ref = Some (pathParts ! 3),
                       path = path_of_parts pathParts,
                       type = (if pathType = ''tree'' then tree else blob)\<rparr>)"

definition buildContentsApiUrl ::
  "(string \<Rightarrow> string option) \<Rightarrow> ParsedGitHubUrl \<Rightarrow> string option" where
  \<comment> \<open>\<^verbatim>\<open>encodeURIComponent\<close> is the platform's: a parameter, \<open>None\<close> where it throws
      \<^verbatim>\<open>URIError\<close>, and then so does this function\<close>
  "buildContentsApiUrl encodeURIComponent parsed =
     (let url = ''https://api.github.com/repos/'' @ owner parsed @ ''/'' @ repo parsed @ ''/contents'';
          url = (if truthy (path parsed) then url @ ''/'' @ the (path parsed) else url)
      in if truthy (ref parsed) then
           (case encodeURIComponent (the (ref parsed)) of
              None \<Rightarrow> None
            | Some e \<Rightarrow> Some (url @ ''?ref='' @ e))
         else Some url)"

definition buildTreeApiUrl :: "ParsedGitHubUrl \<Rightarrow> string" where
  "buildTreeApiUrl parsed =
     (let ref' = or_else (ref parsed) ''HEAD''
      in ''https://api.github.com/repos/'' @ owner parsed @ ''/'' @ repo parsed
           @ ''/git/trees/'' @ ref' @ ''?recursive=1'')"

definition getRawUrl :: "ParsedGitHubUrl \<Rightarrow> string \<Rightarrow> string" where
  "getRawUrl parsed filePath =
     (let ref' = or_else (ref parsed) ''HEAD''
      in ''https://raw.githubusercontent.com/'' @ owner parsed @ ''/'' @ repo parsed
           @ ''/'' @ ref' @ ''/'' @ filePath)"

section \<open>github-client.js\<close>

text \<open>
  What the process can observe of the outside: the global \<^verbatim>\<open>fetch\<close>, the two calls of
  \<^verbatim>\<open>fs/promises\<close>, the output stream of the archive, and the pure functions \<^verbatim>\<open>join\<close> and
  \<^verbatim>\<open>dirname\<close> of \<^verbatim>\<open>path\<close>. None of it is code of the repository, so all of it is a
  parameter. The outside has a state \<open>'w\<close> that every call may read and change; a call
  that rejects gives the message of its error (\<open>Inl\<close>, or \<open>Some\<close> for a call without
  a result). The request headers, and with them the token, only matter to what the
  outside answers.

  The output stream shows itself twice. \<open>stream_error\<close> is asked wherever \<open>downloadToZip\<close>
  waits while the stream has no \<^verbatim>\<open>'error'\<close> listener: \<open>Some\<close> is an \<^verbatim>\<open>'error'\<close> event
  delivered during that wait. \<open>stream_close\<close> is the wait for the end of the stream once
  the listeners for \<^verbatim>\<open>'close'\<close> and \<^verbatim>\<open>'error'\<close> are attached.
\<close>

record tree_item =
  item_type :: string
  item_path :: string
  item_size :: "nat option"
  item_sha :: "string option"

record json_data =
  data_default_branch :: "string option"
  data_size :: "nat option"
  data_sha :: "string option"
  data_tree :: "tree_item list option"

record response =
  ok :: bool
  status :: nat
  statusText :: string
  json :: "string + json_data"       \<comment> \<open>\<^verbatim>\<open>response.json()\<close>\<close>
  arrayBuffer :: "string + string"   \<comment> \<open>\<^verbatim>\<open>response.arrayBuffer()\<close>, the bytes\<close>

record 'w platform =
  global_fetch :: "string \<Rightarrow> 'w \<Rightarrow> (string + response) \<times> 'w"
  fs_mkdir :: "string \<Rightarrow> 'w \<Rightarrow> string option \<times> 'w"
  fs_writeFile :: "string \<Rightarrow> string \<Rightarrow> 'w \<Rightarrow> string option \<times> 'w"
  stream_error :: "string \<Rightarrow> 'w \<Rightarrow> string option \<times> 'w"
  stream_close :: "string \<Rightarrow> 'w \<Rightarrow> string option \<times> 'w"
  path_join :: "string \<Rightarrow> string \<Rightarrow> string"
  path_dirname :: "string \<Rightarrow> string"

datatype client_error =
    GitHubApiError nat string   \<comment> \<open>\<^verbatim>\<open>GitHub API error: status statusText\<close>\<close>
  | InvalidResponse             \<comment> \<open>\<^verbatim>\<open>Invalid response from GitHub API\<close>\<close>
  | DownloadFailed nat string   \<comment> \<open>\<^verbatim>\<open>Failed to download: status statusText\<close>\<close>
  | PlatformError string        \<comment> \<open>an error thrown by a platform call\<close>

record GitHubFile =
  file_path :: string
  downloadUrl :: string
  file_size :: nat
  file_sha :: "string option"

text \<open>
  The state of the process: the outside, the URLs requested so far, and the calls made on
  the file system so far, both in order.
\<close>

datatype fs_call =
    Mkdir string
  | WriteFile string string

record 'w proc =
  world :: 'w
  requests :: "string list"
  fs_calls :: "fs_call list"

definition do_fetch :: "'w platform \<Rightarrow> string \<Rightarrow> 'w proc \<Rightarrow> (string + response) \<times> 'w proc" where
  \<comment> \<open>one call of the global \<^verbatim>\<open>fetch\<close>\<close>
  "do_fetch pf url s =
     (let (r, w') = global_fetch pf url (world s)
      in (r, s\<lparr>world := w', requests := requests s @ [url]\<rparr>))"

definition client_fetch ::
  "'w platform \<Rightarrow> string \<Rightarrow> 'w proc \<Rightarrow> (client_error + json_data) \<times> 'w proc" where
  \<comment> \<open>\<^verbatim>\<open>GitHubClient.fetch\<close>\<close>
  "client_fetch pf url s =
     (case do_fetch pf url s of
        (Inl msg, s') \<Rightarrow> (Inl (PlatformError msg), s')
      | (Inr response, s') \<Rightarrow>
          if \<not> ok response then
            (Inl (GitHubApiError (status response) (statusText response)), s')
          else (case json response of
                  Inl msg \<Rightarrow> (Inl (PlatformError msg), s')
                | Inr data \<Rightarrow> (Inr data, s')))"

definition repoApiUrl :: "string \<Rightarrow> string \<Rightarrow> string" where
  \<comment> \<open>the URL that \<open>getDefaultBranch\<close> requests\<close>
  "repoApiUrl owner' repo' = ''https://api.github.com/repos/'' @ owner' @ ''/'' @ repo'"

definition getDefaultBranch ::
  "'w platform \<Rightarrow> string \<Rightarrow> string \<Rightarrow> 'w proc \<Rightarrow> (client_error + string option) \<times> 'w proc" where
  "getDefaultBranch pf owner' repo' s =
     (case client_fetch pf (repoApiUrl owner' repo') s of
        (Inl e, s') \<Rightarrow> (Inl e, s')
      | (Inr data, s') \<Rightarrow> (Inr (data_default_branch data), s'))"

definition mkFile :: "ParsedGitHubUrl \<Rightarrow> tree_item \<Rightarrow> GitHubFile" where
  \<comment> \<open>the object literal pushed by the loop of \<open>getTreeContents\<close>\<close>
  "mkFile parsed item =
     \<lparr>file_path = item_path item,
      downloadUrl = getRawUrl parsed (item_path item),
      file_size = (case item_size item of None \<Rightarrow> 0 | Some n \<Rightarrow> n),
      file_sha = item_sha item\<rparr>"

text \<open>
  The loop of \<open>getTreeContents\<close>. Its state is \<open>files\<close>, \<open>count\<close> and the arguments
  that \<open>onProgress\<close> has been called with. \<^verbatim>\<open>break\<close> returns the state, \<^verbatim>\<open>continue\<close>
  goes on with the state unchanged.
\<close>

fun tree_loop ::
  "ParsedGitHubUrl \<Rightarrow> tree_item list \<Rightarrow> GitHubFile list \<times> nat \<times> nat list
     \<Rightarrow> GitHubFile list \<times> nat \<times> nat list" where
  "tree_loop parsed [] acc = acc"
| "tree_loop parsed (item # items) (files, count, progress) =
     (let pathPrefix = (if truthy (path parsed) then the (path parsed) @ ''/'' else [])
      in
      if item_type item \<noteq> ''blob'' then tree_loop parsed items (files, count, progress)
      else if truthy (path parsed) \<and> item_path item = the (path parsed) then
        (files @ [mkFile parsed item], count + 1, progress @ [count + 1])
      else if truthy (path parsed) \<and> \<not> startsWith (item_path item) pathPrefix then
        tree_loop parsed items (files, count, progress)
      else
        tree_loop parsed items (files @ [mkFile parsed item], count + 1, progress @ [count + 1]))"

definition getTreeContents ::
  "'w platform \<Rightarrow> ParsedGitHubUrl \<Rightarrow> 'w proc
     \<Rightarrow> (client_error + GitHubFile list \<times> nat list) \<times> 'w proc" where
  "getTreeContents pf parsed s =
     (case client_fetch pf (buildTreeApiUrl parsed) s of
        (Inl e, s') \<Rightarrow> (Inl e, s')
      | (Inr data, s') \<Rightarrow>
          (case data_tree data of
             None \<Rightarrow> (Inl InvalidResponse, s')
           | Some items \<Rightarrow>
               (case tree_loop parsed items ([], 0, []) of
                  (files, count, progress) \<Rightarrow> (Inr (files, progress), s'))))"

definition enrich ::
  "'w platform \<Rightarrow> (string \<Rightarrow> string option) \<Rightarrow> ParsedGitHubUrl \<Rightarrow> GitHubFile \<Rightarrow> 'w proc
     \<Rightarrow> GitHubFile \<times> 'w proc" where
  \<comment> \<open>the \<^verbatim>\<open>try { ... } catch { }\<close> of \<open>getContents\<close>: every error leaves \<open>file\<close> as it was\<close>
  "enrich pf encodeURIComponent parsed file s =
     (case buildContentsApiUrl encodeURIComponent parsed of
        None \<Rightarrow> (file, s)
      | Some url \<Rightarrow>
          (case client_fetch pf url s of
             (Inl e, s') \<Rightarrow> (file, s')
           | (Inr data, s') \<Rightarrow>
               (file\<lparr>file_size := (case data_size data of None \<Rightarrow> 0 | Some n \<Rightarrow> n),
                      file_sha := Some (or_else (data_sha data) [])\<rparr>, s')))"

text \<open>
  \<open>getContents\<close> assigns \<open>parsed.ref\<close>, so the model returns the address with the files
  and with the arguments of the calls of \<open>onProgress\<close>. Its first statement is
  \<open>resolve_ref\<close>.
\<close>

definition resolve_ref ::
  "'w platform \<Rightarrow> ParsedGitHubUrl \<Rightarrow> 'w proc \<Rightarrow> (client_error + ParsedGitHubUrl) \<times> 'w proc" where
  "resolve_ref pf parsed s =
     (if \<not> truthy (ref parsed) then
        (case getDefaultBranch pf (owner parsed) (repo parsed) s of
           (Inl e, s1) \<Rightarrow> (Inl e, s1)
         | (Inr b, s1) \<Rightarrow> (Inr (parsed\<lparr>ref := b\<rparr>), s1))
      else (Inr parsed, s))"

definition getContents ::
  "'w platform \<Rightarrow> (string \<Rightarrow> string option) \<Rightarrow> ParsedGitHubUrl \<Rightarrow> 'w proc
     \<Rightarrow> (client_error + ParsedGitHubUrl \<times> GitHubFile list \<times> nat list) \<times> 'w proc" where
  "getContents pf encodeURIComponent parsed0 s0 =
     (case resolve_ref pf parsed0 s0 of
        (Inl e, s1) \<Rightarrow> (Inl e, s1)
      | (Inr parsed, s1) \<Rightarrow>
          if type parsed = blob \<and> truthy (path parsed) then
            (let file = \<lparr>file_path = the (path parsed),
                         downloadUrl = getRawUrl parsed (the (path parsed)),
                         file_size = 0,
                         file_sha = Some []\<rparr>;
                 (file', s2) = enrich pf encodeURIComponent parsed file s1
             in (Inr (parsed, [file'], [1]), s2))
          else
            (case getTreeContents pf parsed s1 of
               (Inl e, s2) \<Rightarrow> (Inl e, s2)
             | (Inr (files, progress), s2) \<Rightarrow> (Inr (parsed, files, progress), s2)))"

definition downloadFile ::
  "'w platform \<Rightarrow> string \<Rightarrow> 'w proc \<Rightarrow> (client_error + string) \<times> 'w proc" where
  "downloadFile pf url s =
     (case do_fetch pf url s of
        (Inl msg, s') \<Rightarrow> (Inl (PlatformError msg), s')
      | (Inr response, s') \<Rightarrow>
          if \<not> ok response then
            (Inl (DownloadFailed (status response) (statusText response)), s')
          else (case arrayBuffer response of
                  Inl msg \<Rightarrow> (Inl (PlatformError msg), s')
                | Inr content \<Rightarrow> (Inr content, s')))"

section \<open>downloader.js\<close>

definition basename :: "string \<Rightarrow> string" where
  \<comment> \<open>\<^verbatim>\<open>path.basename\<close> is Node's; this is its POSIX form with one argument: trailing
      slashes are passed over, then the characters back to the slash before them are kept\<close>
  "basename p =
     rev (takeWhile (\<lambda>c. c \<noteq> CHR ''/'') (dropWhile (\<lambda>c. c = CHR ''/'') (rev p)))"

definition getRelativePath :: "string \<Rightarrow> ParsedGitHubUrl \<Rightarrow> string" where
  "getRelativePath filePath parsed =
     (let basePath = the (path parsed) @ ''/'' in
      if truthy (path parsed) \<and> type parsed = tree \<and> startsWith filePath basePath then
        drop (length basePath) filePath
      else if type parsed = blob \<and> truthy (path parsed) then basename filePath
      else filePath)"

text \<open>
  What the two loops do that can be seen from outside, in order: a call of
  \<open>updateProgress\<close> with its two arguments, a call of \<^verbatim>\<open>archive.append\<close> with the name
  and the content of the entry, and the call of \<^verbatim>\<open>archive.finalize\<close>. The archive is the
  library's; it is known here by the calls made on it, and \<^verbatim>\<open>append\<close> only queues the entry.
  What \<open>updateProgress\<close> writes to the terminal is left out: the bar, the percentage and
  the byte count are computed from \<open>current\<close>, \<open>total\<close> and \<open>downloadedBytes\<close>.
\<close>

datatype event =
    Progress string nat
  | Append string string
  | Finalize

record 'w dl_state =
  proc :: "'w proc"
  current :: nat
  downloadedBytes :: nat
  spinnerIndex :: nat
  errors :: "(string \<times> client_error) list"
  trace :: "event list"

definition updateProgress :: "string \<Rightarrow> nat \<Rightarrow> 'w dl_state \<Rightarrow> 'w dl_state" where
  "updateProgress fileName bytes st =
     st\<lparr>current := current st + 1,
        downloadedBytes := downloadedBytes st + bytes,
        spinnerIndex := spinnerIndex st + 1,
        trace := trace st @ [Progress fileName bytes]\<rparr>"

definition catch_error :: "string \<Rightarrow> client_error \<Rightarrow> 'w dl_state \<Rightarrow> 'w dl_state" where
  \<comment> \<open>the \<^verbatim>\<open>catch (error)\<close> block of both loops\<close>
  "catch_error relativePath e st =
     updateProgress relativePath 0 (st\<lparr>errors := errors st @ [(relativePath, e)]\<rparr>)"

definition do_mkdir :: "'w platform \<Rightarrow> string \<Rightarrow> 'w proc \<Rightarrow> string option \<times> 'w proc" where
  "do_mkdir pf dir s =
     (let (r, w') = fs_mkdir pf dir (world s)
      in (r, s\<lparr>world := w', fs_calls := fs_calls s @ [Mkdir dir]\<rparr>))"

definition do_writeFile ::
  "'w platform \<Rightarrow> string \<Rightarrow> string \<Rightarrow> 'w proc \<Rightarrow> string option \<times> 'w proc" where
  "do_writeFile pf file content s =
     (let (r, w') = fs_writeFile pf file content (world s)
      in (r, s\<lparr>world := w', fs_calls := fs_calls s @ [WriteFile file content]\<rparr>))"

definition do_wait :: "'w platform \<Rightarrow> string \<Rightarrow> 'w proc \<Rightarrow> string option \<times> 'w proc" where
  \<comment> \<open>a wait of \<open>downloadToZip\<close> before the listeners are attached\<close>
  "do_wait pf file s = (let (r, w') = stream_error pf file (world s) in (r, s\<lparr>world := w'\<rparr>))"

definition do_close :: "'w platform \<Rightarrow> string \<Rightarrow> 'w proc \<Rightarrow> string option \<times> 'w proc" where
  "do_close pf file s = (let (r, w') = stream_close pf file (world s) in (r, s\<lparr>world := w'\<rparr>))"

text \<open>
  The \<^verbatim>\<open>try\<close> block of the loop of \<open>downloadFiles\<close>, up to the call of \<open>updateProgress\<close>:
  the error that ends it, or the length of the content written.
\<close>

definition try_file ::
  "'w platform \<Rightarrow> string \<Rightarrow> GitHubFile \<Rightarrow> 'w proc \<Rightarrow> (client_error + nat) \<times> 'w proc" where
  "try_file pf outputPath file s =
     (case do_mkdir pf (path_dirname pf outputPath) s of
        (Some msg, s1) \<Rightarrow> (Inl (PlatformError msg), s1)
      | (None, s1) \<Rightarrow>
          (case downloadFile pf (downloadUrl file) s1 of
             (Inl e, s2) \<Rightarrow> (Inl e, s2)
           | (Inr content, s2) \<Rightarrow>
               (case do_writeFile pf outputPath content s2 of
                  (Some msg, s3) \<Rightarrow> (Inl (PlatformError msg), s3)
                | (None, s3) \<Rightarrow> (Inr (length content), s3))))"

definition files_step ::
  "'w platform \<Rightarrow> string \<Rightarrow> ParsedGitHubUrl \<Rightarrow> bool \<Rightarrow> 'w dl_state \<Rightarrow> GitHubFile
     \<Rightarrow> 'w dl_state" where
  \<comment> \<open>one turn of the loop of \<open>downloadFiles\<close>\<close>
  "files_step pf outputDir parsed isSingleFileWithPath st file =
     (let relativePath = getRelativePath (file_path file) parsed;
          outputPath = (if isSingleFileWithPath then outputDir
                        else path_join pf outputDir relativePath)
      in case try_file pf outputPath file (proc st) of
           (Inr n, s') \<Rightarrow> updateProgress relativePath n (st\<lparr>proc := s'\<rparr>)
         | (Inl e, s') \<Rightarrow> catch_error relativePath e (st\<lparr>proc := s'\<rparr>))"

text \<open>The lines that both functions print once the loop is over.\<close>

datatype line =
    FailedCount nat                \<comment> \<open>\<^verbatim>\<open>n file(s) failed to download:\<close>\<close>
  | FailedFile string client_error \<comment> \<open>\<^verbatim>\<open>file: error\<close>\<close>
  | AndMore nat                    \<comment> \<open>\<^verbatim>\<open>... and n more\<close>\<close>
  | Downloaded int string          \<comment> \<open>\<^verbatim>\<open>Downloaded successCount files to outputDir\<close>\<close>
  | CreatedZip int string          \<comment> \<open>\<^verbatim>\<open>Created ZIP with successCount files\<close>, and \<open>zipPath\<close>\<close>

definition error_lines :: "(string \<times> client_error) list \<Rightarrow> line list" where
  "error_lines errs =
     (if length errs > 0 then
        FailedCount (length errs)
        # map (\<lambda>(file, e). FailedFile file e) (take 5 errs)
        @ (if length errs > 5 then [AndMore (length errs - 5)] else [])
      else [])"

definition successCount :: "nat \<Rightarrow> (string \<times> client_error) list \<Rightarrow> int" where
  "successCount total' errs = int total' - int (length errs)"

definition init_state :: "'w proc \<Rightarrow> 'w dl_state" where
  "init_state s =
     \<lparr>proc = s, current = 0, downloadedBytes = 0, spinnerIndex = 0, errors = [], trace = []\<rparr>"

record options =
  outputIsFilePath :: bool

definition downloadFiles ::
  "'w platform \<Rightarrow> GitHubFile list \<Rightarrow> string \<Rightarrow> ParsedGitHubUrl \<Rightarrow> options \<Rightarrow> 'w proc
     \<Rightarrow> line list \<times> 'w dl_state" where
  "downloadFiles pf files outputDir parsed opts s =
     (let total' = length files;
          isSingleFileWithPath =
            (type parsed = blob \<and> length files = 1 \<and> outputIsFilePath opts);
          st = foldl (files_step pf outputDir parsed isSingleFileWithPath) (init_state s) files
      in (error_lines (errors st) @ [Downloaded (successCount total' (errors st)) outputDir], st))"

text \<open>
  \<open>downloadToZip\<close> creates the output stream and pipes the archive into it before the loop,
  and attaches a listener for the \<^verbatim>\<open>'error'\<close> event of the stream only after
  \<^verbatim>\<open>await archive.finalize()\<close>. Until then an \<^verbatim>\<open>'error'\<close> event of the stream has no
  listener: it is thrown as an uncaught exception, and the process ends where it waits.
  So a run of \<open>downloadToZip\<close> ends in one of three ways: it returns and prints its lines;
  it rejects, when the directory of the archive cannot be made or when the stream reports
  an error to the listener; or the process ends with an uncaught exception.
\<close>

datatype failure =
    Rejected client_error
  | Uncaught string

text \<open>
  One turn of the loop of \<open>downloadToZip\<close>. The turn waits for the download; an error of
  the stream delivered during that wait ends the process (\<open>Some\<close>) before the \<^verbatim>\<open>try\<close>
  block goes on.
\<close>

definition zip_step ::
  "'w platform \<Rightarrow> string \<Rightarrow> ParsedGitHubUrl \<Rightarrow> 'w dl_state \<Rightarrow> GitHubFile
     \<Rightarrow> string option \<times> 'w dl_state" where
  "zip_step pf zipPath parsed st file =
     (let relativePath = getRelativePath (file_path file) parsed
      in case downloadFile pf (downloadUrl file) (proc st) of
           (r, s1) \<Rightarrow>
             (case do_wait pf zipPath s1 of
                (Some msg, s') \<Rightarrow> (Some msg, st\<lparr>proc := s'\<rparr>)
              | (None, s') \<Rightarrow>
                  (None,
                   case r of
                     Inr content \<Rightarrow>
                       updateProgress relativePath (length content)
                         (st\<lparr>proc := s', trace := trace st @ [Append relativePath content]\<rparr>)
                   | Inl e \<Rightarrow> catch_error relativePath e (st\<lparr>proc := s'\<rparr>))))"

fun zip_loop ::
  "'w platform \<Rightarrow> string \<Rightarrow> ParsedGitHubUrl \<Rightarrow> GitHubFile list \<Rightarrow> 'w dl_state
     \<Rightarrow> string option \<times> 'w dl_state" where
  "zip_loop pf zipPath parsed [] st = (None, st)"
| "zip_loop pf zipPath parsed (file # files) st =
     (case zip_step pf zipPath parsed st file of
        (Some msg, st') \<Rightarrow> (Some msg, st')
      | (None, st') \<Rightarrow> zip_loop pf zipPath parsed files st')"

text \<open>
  \<open>downloadToZip\<close> up to and with \<^verbatim>\<open>await archive.finalize()\<close>: how the run has ended, if
  it has, and the state reached.
\<close>

definition zip_to_finalize ::
  "'w platform \<Rightarrow> GitHubFile list \<Rightarrow> string \<Rightarrow> ParsedGitHubUrl \<Rightarrow> 'w proc
     \<Rightarrow> failure option \<times> 'w dl_state" where
  "zip_to_finalize pf files zipPath parsed s =
     (let dir = (if path_dirname pf zipPath = [] then ''.'' else path_dirname pf zipPath)
      in case do_mkdir pf dir s of
           (Some msg, s0) \<Rightarrow> (Some (Rejected (PlatformError msg)), init_state s0)
         | (None, s0) \<Rightarrow>
             (case zip_loop pf zipPath parsed files (init_state s0) of
                (Some msg, st) \<Rightarrow> (Some (Uncaught msg), st)
              | (None, st) \<Rightarrow>
                  (let st1 = st\<lparr>trace := trace st @ [Finalize]\<rparr>
                   in case do_wait pf zipPath (proc st1) of
                        (Some msg, s1) \<Rightarrow> (Some (Uncaught msg), st1\<lparr>proc := s1\<rparr>)
                      | (None, s1) \<Rightarrow> (None, st1\<lparr>proc := s1\<rparr>))))"

definition downloadToZip ::
  "'w platform \<Rightarrow> GitHubFile list \<Rightarrow> string \<Rightarrow> ParsedGitHubUrl \<Rightarrow> 'w proc
     \<Rightarrow> (failure + line list) \<times> 'w dl_state" where
  "downloadToZip pf files zipPath parsed s =
     (let total' = length files
      in case zip_to_finalize pf files zipPath parsed s of
           (Some f, st) \<Rightarrow> (Inl f, st)
         | (None, st1) \<Rightarrow>
             (case do_close pf zipPath (proc st1) of
                (Some msg, s2) \<Rightarrow> (Inl (Rejected (PlatformError msg)), st1\<lparr>proc := s2\<rparr>)
              | (None, s2) \<Rightarrow>
                  (Inr (error_lines (errors st1)
                          @ [CreatedZip (successCount total' (errors st1)) zipPath]),
                   st1\<lparr>proc := s2\<rparr>)))"


section \<open>Notions used to state the properties\<close>

definition under_path :: "string \<Rightarrow> tree_item \<Rightarrow> bool" where
  \<comment> \<open>a file of the listing below the folder \<open>p\<close>\<close>
  "under_path p item = (item_type item = ''blob'' \<and> startsWith (item_path item) (p @ ''/''))"

definition exact_path :: "string \<Rightarrow> tree_item \<Rightarrow> bool" where
  \<comment> \<open>a file of the listing whose path is \<open>p\<close> itself\<close>
  "exact_path p item = (item_type item = ''blob'' \<and> item_path item = p)"


definition new_requests :: "'w proc \<Rightarrow> 'w proc \<Rightarrow> string list" where
  \<comment> \<open>the URLs requested between two states of the process\<close>
  "new_requests s s' = drop (length (requests s)) (requests s')"

definition enrichment_failed ::
  "'w platform \<Rightarrow> (string \<Rightarrow> string option) \<Rightarrow> ParsedGitHubUrl \<Rightarrow> 'w proc \<Rightarrow> bool" where
  \<comment> \<open>the \<^verbatim>\<open>try\<close> block of \<open>getContents\<close> throws in state \<open>s\<close>\<close>
  "enrichment_failed pf encodeURIComponent parsed s =
     (case buildContentsApiUrl encodeURIComponent parsed of
        None \<Rightarrow> True
      | Some url \<Rightarrow> isl (fst (client_fetch pf url s)))"












definition zip_dir :: "'w platform \<Rightarrow> string \<Rightarrow> string" where
  \<comment> \<open>\<^verbatim>\<open>dirname(zipPath) || '.'\<close>\<close>
  "zip_dir pf zipPath = (if path_dirname pf zipPath = [] then ''.'' else path_dirname pf zipPath)"


definition relativePaths :: "GitHubFile list \<Rightarrow> ParsedGitHubUrl \<Rightarrow> string list" where
  "relativePaths files parsed = map (\<lambda>file. getRelativePath (file_path file) parsed) files"




section \<open>Example inputs\<close>

text \<open>
  A platform for the examples. \<^verbatim>\<open>fetch\<close> answers from a table and rejects for a URL that
  is not in it; the file system keeps the files written and refuses the paths in \<open>bad\<close>;
  the output stream reports no error.
\<close>

definition example_platform ::
  "(string \<times> response) list \<Rightarrow> string list \<Rightarrow> (string \<times> string) list platform" where
  "example_platform tbl bad =
     \<lparr>global_fetch = (\<lambda>url w. (case map_of tbl url of
                                  None \<Rightarrow> Inl ''fetch failed''
                                | Some r \<Rightarrow> Inr r, w)),
      fs_mkdir = (\<lambda>dir w. (None, w)),
      fs_writeFile = (\<lambda>file content w.
        if file \<in> set bad then (Some ''EACCES'', w) else (None, w @ [(file, content)])),
      stream_error = (\<lambda>file w. (None, w)),
      stream_close = (\<lambda>file w. (None, w)),
      path_join = (\<lambda>a b. a @ ''/'' @ b),
      path_dirname = (\<lambda>p. rev (drop 1 (dropWhile (\<lambda>c. c \<noteq> CHR ''/'') (rev p))))\<rparr>"

definition ok_json :: "json_data \<Rightarrow> response" where
  "ok_json data =
     \<lparr>ok = True, status = 200, statusText = ''OK'', json = Inr data,
      arrayBuffer = Inl ''body used''\<rparr>"

definition ok_bytes :: "string \<Rightarrow> response" where
  "ok_bytes content =
     \<lparr>ok = True, status = 200, statusText = ''OK'', json = Inl ''not JSON'',
      arrayBuffer = Inr content\<rparr>"

definition not_found :: response where
  "not_found =
     \<lparr>ok = False, status = 404, statusText = ''Not Found'', json = Inl ''not JSON'',
      arrayBuffer = Inr []\<rparr>"

definition listing_of :: "tree_item list \<Rightarrow> response" where
  "listing_of items =
     ok_json \<lparr>data_default_branch = None, data_size = None, data_sha = None,
              data_tree = Some items\<rparr>"

definition file_item :: "string \<Rightarrow> tree_item" where
  "file_item p = \<lparr>item_type = ''blob'', item_path = p, item_size = Some 1, item_sha = Some ''sha''\<rparr>"

definition dir_item :: "string \<Rightarrow> tree_item" where
  "dir_item p = \<lparr>item_type = ''tree'', item_path = p, item_size = None, item_sha = Some ''sha''\<rparr>"

definition start :: "(string \<times> string) list proc" where
  \<comment> \<open>nothing written, nothing requested\<close>
  "start = \<lparr>world = [], requests = [], fs_calls = []\<rparr>"

text \<open>
  Scenario B of the specification: the folder \<^verbatim>\<open>src\<close> of \<^verbatim>\<open>o/r\<close> at \<^verbatim>\<open>main\<close>, and a recursive
  listing with two files below it and one elsewhere.
\<close>

definition folder_url :: string where
  "folder_url = ''https://github.com/o/r/tree/main/src''"

definition folder_URL :: url_ctor where
  \<comment> \<open>what \<^verbatim>\<open>new URL\<close> gives for it\<close>
  "folder_URL = map_of [(folder_url, \<lparr>hostname = ''github.com'', pathname = ''/o/r/tree/main/src''\<rparr>)]"

definition folder_address :: ParsedGitHubUrl where
  "folder_address =
     \<lparr>owner = ''o'', repo = ''r'', ref = Some ''main'', path = Some ''src'', type = tree\<rparr>"

definition repo_listing :: "tree_item list" where
  "repo_listing =
     [dir_item ''src'', file_item ''src/a.ts'', dir_item ''src/sub'', file_item ''src/sub/b.ts'',
      dir_item ''other'', file_item ''other/c.ts'']"

definition repo_platform :: "(string \<times> string) list platform" where
  "repo_platform =
     example_platform
       [(''https://api.github.com/repos/o/r/git/trees/main?recursive=1'', listing_of repo_listing)]
       []"

definition file_of :: "string \<Rightarrow> GitHubFile" where
  \<comment> \<open>the descriptor of a file of that repository\<close>
  "file_of p =
     \<lparr>file_path = p, downloadUrl = ''https://raw.githubusercontent.com/o/r/main/'' @ p,
      file_size = 1, file_sha = Some ''sha''\<rparr>"

definition file_address :: ParsedGitHubUrl where
  \<comment> \<open>the address of \<^verbatim>\<open>https://github.com/o/r/blob/main/docs/guide/intro.md\<close>\<close>
  "file_address =
     \<lparr>owner = ''o'', repo = ''r'', ref = Some ''main'', path = Some ''docs/guide/intro.md'',
      type = blob\<rparr>"

definition blob_only_address :: ParsedGitHubUrl where
  \<comment> \<open>the address of \<^verbatim>\<open>https://github.com/o/r/blob/main\<close>\<close>
  "blob_only_address =
     \<lparr>owner = ''o'', repo = ''r'', ref = Some ''main'', path = None, type = blob\<rparr>"

definition root_address :: ParsedGitHubUrl where
  \<comment> \<open>the address of \<^verbatim>\<open>https://github.com/o/r\<close>\<close>
  "root_address = \<lparr>owner = ''o'', repo = ''r'', ref = None, path = None, type = root\<rparr>"

definition listing_platform :: "tree_item list \<Rightarrow> (string \<times> string) list platform" where
  \<comment> \<open>as \<open>repo_platform\<close>, with another listing\<close>
  "listing_platform items =
     example_platform
       [(''https://api.github.com/repos/o/r/git/trees/main?recursive=1'', listing_of items)]
       []"

definition missing_platform :: "(string \<times> string) list platform" where
  \<comment> \<open>the metadata request for the file of \<open>file_address\<close> is answered with 404\<close>
  "missing_platform =
     example_platform
       [(''https://api.github.com/repos/o/r/contents/docs/guide/intro.md?ref=main'', not_found)]
       []"

definition root_url :: string where
  "root_url = ''https://github.com/o/r''"

definition root_URL :: url_ctor where
  \<comment> \<open>what \<^verbatim>\<open>new URL\<close> gives for it\<close>
  "root_URL = map_of [(root_url, \<lparr>hostname = ''github.com'', pathname = ''/o/r''\<rparr>)]"

text \<open>Three files of the folder, of which the second cannot be downloaded.\<close>

definition folder_files :: "GitHubFile list" where
  "folder_files = [file_of ''src/a.ts'', file_of ''src/sub/b.ts'', file_of ''src/z.ts'']"

definition download_platform :: "(string \<times> string) list platform" where
  "download_platform =
     example_platform
       [(''https://raw.githubusercontent.com/o/r/main/src/a.ts'', ok_bytes ''AAA''),
        (''https://raw.githubusercontent.com/o/r/main/src/sub/b.ts'', not_found),
        (''https://raw.githubusercontent.com/o/r/main/src/z.ts'', ok_bytes ''ZZ'')]
       []"

definition plain :: options where
  "plain = \<lparr>outputIsFilePath = False\<rparr>"

text \<open>A platform on which no directory can be made.\<close>

definition readonly_platform :: "(string \<times> string) list platform" where
  "readonly_platform = download_platform\<lparr>fs_mkdir := (\<lambda>dir w. (Some ''EACCES'', w))\<rparr>"

text \<open>
  A platform whose world is the number of requests made so far. Every request is answered
  with four bytes, and from the second request on the output stream has failed:
  the disk is full.
\<close>

definition disk_full_platform :: "nat platform" where
  "disk_full_platform =
     \<lparr>global_fetch = (\<lambda>url w. (Inr (ok_bytes ''DATA''), Suc w)),
      fs_mkdir = (\<lambda>dir w. (None, w)),
      fs_writeFile = (\<lambda>file content w. (None, w)),
      stream_error = (\<lambda>file w. (if 2 \<le> w then Some ''ENOSPC'' else None, w)),
      stream_close = (\<lambda>file w. (None, w)),
      path_join = (\<lambda>a b. a @ ''/'' @ b),
      path_dirname = (\<lambda>p. rev (drop 1 (dropWhile (\<lambda>c. c \<noteq> CHR ''/'') (rev p))))\<rparr>"

definition start_count :: "nat proc" where
  "start_count = \<lparr>world = 0, requests = [], fs_calls = []\<rparr>"

text \<open>As \<open>download_platform\<close>, on a file system that refuses to write \<^verbatim>\<open>out/z.ts\<close>.\<close>

definition refusing_platform :: "(string \<times> string) list platform" where
  "refusing_platform =
     example_platform
       [(''https://raw.githubusercontent.com/o/r/main/src/a.ts'', ok_bytes ''AAA''),
        (''https://raw.githubusercontent.com/o/r/main/src/sub/b.ts'', not_found),
        (''https://raw.githubusercontent.com/o/r/main/src/z.ts'', ok_bytes ''ZZ'')]
       [''out/z.ts'']"

section \<open>Properties of the URL parser\<close>

lemmas parse_eval =
  parseGitHubUrl_def clean_url_def trim_def is_space_def strip_trailing_slashes_def
  pathParts_of_def path_of_parts_def strip_git_def endsWith_def startsWith_def Let_def

lemma pathParts_nonempty: "s \<in> set (pathParts_of u) \<Longrightarrow> s \<noteq> []"
  by (simp add: pathParts_of_def)

lemma pathParts_nth_nonempty: "i < length (pathParts_of u) \<Longrightarrow> pathParts_of u ! i \<noteq> []"
  using pathParts_nonempty[of "pathParts_of u ! i" u] by simp

lemma strip_git_empty: "s \<noteq> [] \<Longrightarrow> strip_git s = [] \<longleftrightarrow> s = ''.git''"
proof
  assume ne: "s \<noteq> []" and e: "strip_git s = []"
  then have ew: "endsWith s ''.git''" and t: "take (length s - 4) s = []"
    by (auto simp: strip_git_def split: if_splits)
  from t ne have "length s - 4 = 0" by simp
  with ew show "s = ''.git''" by (simp add: endsWith_def)
next
  assume "s = ''.git''"
  then show "strip_git s = []" by (simp add: strip_git_def endsWith_def)
qed

lemma parseGitHubUrl_Inr:
  assumes "parseGitHubUrl new_URL url = Inr a"
  obtains u where "new_URL (clean_url url) = Some u"
    and "includes_str (hostname u) ''github.com''"
    and "2 \<le> length (pathParts_of u)"
    and "owner a = pathParts_of u ! 0"
    and "repo a = strip_git (pathParts_of u ! 1)"
    and "(length (pathParts_of u) = 2 \<and> type a = root \<and> ref a = None \<and> path a = None)
       \<or> (4 \<le> length (pathParts_of u) \<and> type a \<noteq> root
           \<and> (pathParts_of u ! 2 = ''tree'' \<and> type a = tree
               \<or> pathParts_of u ! 2 = ''blob'' \<and> type a = blob)
           \<and> ref a = Some (pathParts_of u ! 3) \<and> path a = path_of_parts (pathParts_of u))"
  using assms
  by (auto simp: parseGitHubUrl_def Let_def split: option.splits if_splits)

text \<open>
  What a successful parse says about owner and repository: both are read off the first
  two non-empty segments of the path, the owner is never empty, and the repository is
  empty in exactly one case, a second segment that is \<^verbatim>\<open>.git\<close> and nothing else.
\<close>

lemma parseGitHubUrl_owner_repo:
  assumes "parseGitHubUrl new_URL url = Inr a"
  shows "\<exists>u. new_URL (clean_url url) = Some u \<and> 2 \<le> length (pathParts_of u)
           \<and> owner a = pathParts_of u ! 0 \<and> owner a \<noteq> []
           \<and> repo a = strip_git (pathParts_of u ! 1)
           \<and> (repo a = [] \<longleftrightarrow> pathParts_of u ! 1 = ''.git'')"
proof -
  from assms obtain u where u: "new_URL (clean_url url) = Some u"
    and len: "2 \<le> length (pathParts_of u)"
    and o: "owner a = pathParts_of u ! 0" and r: "repo a = strip_git (pathParts_of u ! 1)"
    by (auto simp: parseGitHubUrl_def Let_def split: option.splits if_splits)
  have ne: "pathParts_of u ! 0 \<noteq> []" "pathParts_of u ! 1 \<noteq> []"
    by (rule pathParts_nth_nonempty, use len in linarith)+
  from ne(2) r have "repo a = [] \<longleftrightarrow> pathParts_of u ! 1 = ''.git''"
    by (simp add: strip_git_empty)
  with u len o r ne show ?thesis by simp
qed

text \<open>
  C5, as the code has it. \<open>parseGitHubUrl\<close> throws for every input of these classes:
  the cleaned string is not a URL for the platform; the host name does not contain
  \<^verbatim>\<open>github.com\<close>; the path has fewer than two non-empty segments; there is a third segment
  and it is neither \<^verbatim>\<open>tree\<close> nor \<^verbatim>\<open>blob\<close>; the third segment is \<^verbatim>\<open>tree\<close> or \<^verbatim>\<open>blob\<close> and it
  is the last one.
\<close>

theorem parseGitHubUrl_rejects:
  assumes "new_URL (clean_url url) = None
     \<or> (\<exists>u. new_URL (clean_url url) = Some u \<and>
           (\<not> includes_str (hostname u) ''github.com''
            \<or> length (pathParts_of u) < 2
            \<or> (2 < length (pathParts_of u)
                 \<and> pathParts_of u ! 2 \<noteq> ''tree'' \<and> pathParts_of u ! 2 \<noteq> ''blob'')
            \<or> (length (pathParts_of u) = 3
                 \<and> (pathParts_of u ! 2 = ''tree'' \<or> pathParts_of u ! 2 = ''blob''))))"
  shows "isl (parseGitHubUrl new_URL url)"
  using assms
  by (auto simp: parseGitHubUrl_def Let_def split: option.splits)

text \<open>One input of each of the five classes.\<close>

theorem parseGitHubUrl_rejects_witness:
  "isl (parseGitHubUrl (map_of []) ''not a url'')
   \<and> isl (parseGitHubUrl
            (map_of [(''https://gitlab.com/o/r'',
                      \<lparr>hostname = ''gitlab.com'', pathname = ''/o/r''\<rparr>)])
            ''https://gitlab.com/o/r'')
   \<and> isl (parseGitHubUrl
            (map_of [(''https://github.com/o'',
                      \<lparr>hostname = ''github.com'', pathname = ''/o''\<rparr>)])
            ''https://github.com/o/'')
   \<and> isl (parseGitHubUrl
            (map_of [(''https://github.com/o/r/issues/7'',
                      \<lparr>hostname = ''github.com'', pathname = ''/o/r/issues/7''\<rparr>)])
            ''https://github.com/o/r/issues/7'')
   \<and> isl (parseGitHubUrl
            (map_of [(''https://github.com/o/r/tree'',
                      \<lparr>hostname = ''github.com'', pathname = ''/o/r/tree''\<rparr>)])
            ''https://github.com/o/r/tree/'')"
proof -
  have 1: "isl (parseGitHubUrl (map_of []) ''not a url'')"
    by (rule parseGitHubUrl_rejects) simp
  have 2: "isl (parseGitHubUrl
            (map_of [(''https://gitlab.com/o/r'',
                      \<lparr>hostname = ''gitlab.com'', pathname = ''/o/r''\<rparr>)])
            ''https://gitlab.com/o/r'')"
    by (rule parseGitHubUrl_rejects) (simp add: parse_eval)
  have 3: "isl (parseGitHubUrl
            (map_of [(''https://github.com/o'',
                      \<lparr>hostname = ''github.com'', pathname = ''/o''\<rparr>)])
            ''https://github.com/o/'')"
    by (rule parseGitHubUrl_rejects) (simp add: parse_eval)
  have 4: "isl (parseGitHubUrl
            (map_of [(''https://github.com/o/r/issues/7'',
                      \<lparr>hostname = ''github.com'', pathname = ''/o/r/issues/7''\<rparr>)])
            ''https://github.com/o/r/issues/7'')"
    by (rule parseGitHubUrl_rejects) (simp add: parse_eval)
  have 5: "isl (parseGitHubUrl
            (map_of [(''https://github.com/o/r/tree'',
                      \<lparr>hostname = ''github.com'', pathname = ''/o/r/tree''\<rparr>)])
            ''https://github.com/o/r/tree/'')"
    by (rule parseGitHubUrl_rejects) (simp add: parse_eval)
  from 1 2 3 4 5 show ?thesis by (intro conjI)
qed

text \<open>
  C5 as the specification words it asks for an error whenever the host is not
  \<^verbatim>\<open>github.com\<close>. The test in the code is \<^verbatim>\<open>hostname.includes('github.com')\<close>, and a host
  such as \<^verbatim>\<open>www.github.com\<close> passes it: the address of the repository comes back.
\<close>

theorem parseGitHubUrl_other_host_counterexample:
  "hostname \<lparr>hostname = ''www.github.com'', pathname = ''/o/r''\<rparr> \<noteq> ''github.com''
   \<and> parseGitHubUrl
        (map_of [(''https://www.github.com/o/r'',
                  \<lparr>hostname = ''www.github.com'', pathname = ''/o/r''\<rparr>)])
        ''https://www.github.com/o/r''
      = Inr \<lparr>owner = ''o'', repo = ''r'', ref = None, path = None, type = root\<rparr>"
  by (simp add: parse_eval)

text \<open>
  C8 asks for a repository that is never empty. The suffix \<^verbatim>\<open>.git\<close> is removed after the
  segments have been counted, so for \<^verbatim>\<open>https://github.com/o/.git\<close> the parse succeeds with
  the empty string as the repository.
\<close>

theorem parseGitHubUrl_empty_repo:
  "parseGitHubUrl
     (map_of [(''https://github.com/o/.git'',
               \<lparr>hostname = ''github.com'', pathname = ''/o/.git''\<rparr>)])
     ''https://github.com/o/.git''
   = Inr \<lparr>owner = ''o'', repo = [], ref = None, path = None, type = root\<rparr>"
  by (simp add: parse_eval)

section \<open>Properties of the relative path\<close>

lemma split_on_nonempty: "split_on c s \<noteq> []"
  by (induction s) (auto split: list.splits)

lemma split_on_no_sep: "c \<notin> set s \<Longrightarrow> split_on c s = [s]"
  by (induction s) auto

lemma length_split_on: "length (split_on c s) = Suc (length (filter (\<lambda>x. x = c) s))"
  by (induction s) (auto split: list.splits)

lemma last_split_on_Cons:
  "x \<noteq> c \<Longrightarrow> c \<in> set s \<Longrightarrow> last (split_on c (x # s)) = last (split_on c s)"
proof -
  assume x: "x \<noteq> c" and c: "c \<in> set s"
  then have "filter (\<lambda>x. x = c) s \<noteq> []" by (simp add: filter_empty_conv)
  then have "2 \<le> length (split_on c s)" by (cases "filter (\<lambda>x. x = c) s") (simp_all add: length_split_on)
  then obtain w v ws where "split_on c s = w # v # ws"
    by (cases "split_on c s"; cases "tl (split_on c s)") auto
  with x show ?thesis by simp
qed

lemma last_split_on_append: "last (split_on c (a @ c # b)) = last (split_on c b)"
proof (induction a)
  case Nil
  show ?case by (simp add: split_on_nonempty)
next
  case (Cons x a)
  show ?case
  proof (cases "x = c")
    case True
    with Cons show ?thesis by (simp add: split_on_nonempty)
  next
    case False
    then have "last (split_on c ((x # a) @ c # b)) = last (split_on c (a @ c # b))"
      using last_split_on_Cons[of x c "a @ c # b"] by simp
    with Cons show ?thesis by simp
  qed
qed

lemma last_split_on_cases:
  obtains "c \<notin> set s" "last (split_on c s) = s"
  | a b where "s = a @ c # b" "c \<notin> set b" "last (split_on c s) = b"
proof (cases "c \<in> set s")
  case False
  then show ?thesis using that(1) by (simp add: split_on_no_sep)
next
  case True
  then obtain a b where s: "s = a @ c # b" and b: "c \<notin> set b"
    using split_list_last[of c s] by blast
  then have "last (split_on c s) = b"
    by (simp add: last_split_on_append split_on_no_sep)
  with s b show ?thesis using that(2) by blast
qed

lemma basename_no_slash:
  assumes "b \<noteq> []" and "CHR ''/'' \<notin> set b"
  shows "basename b = b"
proof -
  from assms have d: "dropWhile (\<lambda>c. c = CHR ''/'') (rev b) = rev b"
    by (cases "rev b") (auto simp: dropWhile_eq_self_iff)
  from assms(2) have t: "takeWhile (\<lambda>c. c \<noteq> CHR ''/'') (rev b) = rev b"
    by (subst takeWhile_eq_all_conv) auto
  show ?thesis unfolding basename_def d t by simp
qed

lemma basename_after_slash:
  assumes "b \<noteq> []" and "CHR ''/'' \<notin> set b"
  shows "basename (a @ CHR ''/'' # b) = b"
proof -
  from assms have hd: "hd (rev b) \<noteq> CHR ''/''"
    by (metis hd_rev last_in_set)
  from assms(1) hd
  have d: "dropWhile (\<lambda>c. c = CHR ''/'') (rev b @ CHR ''/'' # rev a) = rev b @ CHR ''/'' # rev a"
    by (cases "rev b") auto
  from assms(2)
  have t: "takeWhile (\<lambda>c. c \<noteq> CHR ''/'') (rev b @ CHR ''/'' # rev a) = rev b"
    by (subst takeWhile_append2) auto
  have "rev (a @ CHR ''/'' # b) = rev b @ CHR ''/'' # rev a" by simp
  then show ?thesis unfolding basename_def using d t by simp
qed

lemma basename_last_segment:
  assumes "last (split_on CHR ''/'' p) \<noteq> []"
  shows "basename p = last (split_on CHR ''/'' p)"
proof (cases rule: last_split_on_cases[of "CHR ''/''" p])
  case 1
  with assms show ?thesis by (simp add: basename_no_slash)
next
  case (2 a b)
  with assms show ?thesis by (simp add: basename_after_slash)
qed

text \<open>
  C7. For an address of type \<^verbatim>\<open>blob\<close> with a path, the relative path of any file path is
  its \<open>basename\<close>: the last segment of the path, whatever comes before it, for every
  path that does not end with a slash. \<^verbatim>\<open>docs/guide/intro.md\<close> gives \<^verbatim>\<open>intro.md\<close>.
\<close>

theorem getRelativePath_blob:
  assumes "type parsed = blob" and "truthy (path parsed)"
  shows "getRelativePath filePath parsed = basename filePath
         \<and> (last (split_on CHR ''/'' filePath) \<noteq> []
              \<longrightarrow> getRelativePath filePath parsed = last (split_on CHR ''/'' filePath))"
  using assms by (simp add: getRelativePath_def basename_last_segment)

theorem getRelativePath_blob_witness:
  "type \<lparr>owner = ''o'', repo = ''r'', ref = Some ''main'',
         path = Some ''docs/guide/intro.md'', type = blob\<rparr> = blob
   \<and> truthy (path \<lparr>owner = ''o'', repo = ''r'', ref = Some ''main'',
                   path = Some ''docs/guide/intro.md'', type = blob\<rparr>)
   \<and> last (split_on CHR ''/'' ''docs/guide/intro.md'') = ''intro.md''
   \<and> getRelativePath ''docs/guide/intro.md''
        \<lparr>owner = ''o'', repo = ''r'', ref = Some ''main'',
         path = Some ''docs/guide/intro.md'', type = blob\<rparr> = ''intro.md''"
  using getRelativePath_blob[of "\<lparr>owner = ''o'', repo = ''r'', ref = Some ''main'',
         path = Some ''docs/guide/intro.md'', type = blob\<rparr>" "''docs/guide/intro.md''"]
  by (simp add: truthy_def basename_def)

section \<open>Properties of discovery\<close>

lemma requests_do_fetch: "requests (snd (do_fetch pf url s)) = requests s @ [url]"
  by (simp add: do_fetch_def split: prod.splits)

lemma requests_client_fetch: "requests (snd (client_fetch pf url s)) = requests s @ [url]"
  using requests_do_fetch[of pf url s]
  by (auto simp: client_fetch_def split: prod.splits sum.splits)

lemma upt_Suc_shift: "i < j \<Longrightarrow> i # [Suc i..<j] = [i..<j]"
  by (simp add: upt_conv_Cons del: upt_Suc)

lemma tree_loop_keep:
  assumes "path a = Some p" and "p \<noteq> []" and "under_path p item" and "\<not> exact_path p item"
  shows "tree_loop a (item # items) (files, count, progress) =
           tree_loop a items (files @ [mkFile a item], Suc count, progress @ [Suc count])"
  using assms by (simp add: truthy_def under_path_def exact_path_def)

lemma tree_loop_skip:
  assumes "path a = Some p" and "p \<noteq> []" and "\<not> under_path p item" and "\<not> exact_path p item"
  shows "tree_loop a (item # items) (files, count, progress) =
           tree_loop a items (files, count, progress)"
  using assms by (simp add: truthy_def under_path_def exact_path_def)


lemma tree_loop_no_exact:
  assumes "path a = Some p" and "p \<noteq> []"
    and "\<forall>i\<in>set items. \<not> exact_path p i"
  shows "tree_loop a items (files, count, progress) =
           (files @ map (mkFile a) (filter (under_path p) items),
            count + length (filter (under_path p) items),
            progress @ [Suc count ..< Suc (count + length (filter (under_path p) items))])"
  using assms(3)
proof (induction items arbitrary: files count progress)
  case Nil
  then show ?case by simp
next
  case (Cons item items)
  from Cons.prems have ne: "\<not> exact_path p item" and rest: "\<forall>i\<in>set items. \<not> exact_path p i"
    by simp_all
  note IH = Cons.IH[OF rest]
  show ?case
  proof (cases "under_path p item")
    case True
    with ne assms(1,2) show ?thesis
      by (simp add: tree_loop_keep IH upt_Suc_shift del: tree_loop.simps upt_Suc)
  next
    case False
    with ne assms(1,2) show ?thesis
      by (simp add: tree_loop_skip IH del: tree_loop.simps)
  qed
qed


text \<open>
  Without a path nothing is filtered: every file of the listing is returned (scenario A).
\<close>

lemma tree_loop_no_path:
  assumes "\<not> truthy (path a)"
  shows "tree_loop a items (files, count, progress) =
           (files @ map (mkFile a) (filter (\<lambda>i. item_type i = ''blob'') items),
            count + length (filter (\<lambda>i. item_type i = ''blob'') items),
            progress @ [Suc count ..< Suc (count + length (filter (\<lambda>i. item_type i = ''blob'') items))])"
proof (induction items arbitrary: files count progress)
  case Nil
  then show ?case by simp
next
  case (Cons item items)
  show ?case
  proof (cases "item_type item = ''blob''")
    case True
    with assms show ?thesis
      by (simp add: Cons.IH upt_Suc_shift del: upt_Suc)
  next
    case False
    with assms show ?thesis by (simp add: Cons.IH)
  qed
qed

lemma resolve_ref_known: "truthy (ref a) \<Longrightarrow> resolve_ref pf a s = (Inr a, s)"
  by (simp add: resolve_ref_def)

lemma resolve_ref_same:
  assumes "resolve_ref pf a s = (Inr a1, s1)"
  shows "path a1 = path a \<and> type a1 = type a \<and> owner a1 = owner a \<and> repo a1 = repo a"
  using assms by (auto simp: resolve_ref_def split: if_splits prod.splits sum.splits)

lemma getContents_listing:
  assumes "\<not> (type a = blob \<and> truthy (path a))"
    and "resolve_ref pf a s = (Inr a1, s1)"
    and "client_fetch pf (buildTreeApiUrl a1) s1 = (Inr data, s2)"
    and "data_tree data = Some items"
    and "tree_loop a1 items ([], 0, []) = (files, count, progress)"
  shows "getContents pf enc a s = (Inr (a1, files, progress), s2)"
  using assms resolve_ref_same[OF assms(2)]
  by (auto simp: getContents_def getTreeContents_def)

lemma relative_under_path:
  assumes "type a = tree" and "path a = Some p" and "p \<noteq> []" and "under_path p i"
  shows "getRelativePath (item_path i) a = drop (length (p @ ''/'')) (item_path i)"
    and "item_path i = (p @ ''/'') @ getRelativePath (item_path i) a"
proof -
  from assms(4) have sw: "startsWith (item_path i) (p @ ''/'')"
    by (simp add: under_path_def)
  with assms(1-3) show 1: "getRelativePath (item_path i) a = drop (length (p @ ''/'')) (item_path i)"
    by (simp add: getRelativePath_def truthy_def)
  from sw have "take (length (p @ ''/'')) (item_path i) = p @ ''/''"
    by (simp add: startsWith_def)
  then have "item_path i = (p @ ''/'') @ drop (length (p @ ''/'')) (item_path i)"
    by (metis append_take_drop_id)
  with 1 show "item_path i = (p @ ''/'') @ getRelativePath (item_path i) a" by simp
qed

text \<open>
  C1. For an address of type \<^verbatim>\<open>tree\<close> with a path \<open>p\<close>, over a listing in which no file
  has the path \<open>p\<close> itself, discovery returns the descriptors of exactly the files of the
  listing whose paths start with \<open>p\<close> and a slash, in the order of the listing; each of
  these paths is that prefix followed by the relative path that materialization derives
  from it. The witness is scenario B.
\<close>

theorem getContents_folder:
  assumes "type a = tree" and "path a = Some p" and "p \<noteq> []"
    and "resolve_ref pf a s = (Inr a1, s1)"
    and "client_fetch pf (buildTreeApiUrl a1) s1 = (Inr data, s2)"
    and "data_tree data = Some items"
    and "\<forall>i\<in>set items. \<not> exact_path p i"
  shows "getContents pf enc a s =
           (Inr (a1, map (mkFile a1) (filter (under_path p) items),
                 [1..<Suc (length (filter (under_path p) items))]), s2)
         \<and> (\<forall>i\<in>set (filter (under_path p) items).
               file_path (mkFile a1 i) = (p @ ''/'') @ getRelativePath (file_path (mkFile a1 i)) a1)
         \<and> relativePaths (map (mkFile a1) (filter (under_path p) items)) a1 =
             map (\<lambda>i. drop (length (p @ ''/'')) (item_path i)) (filter (under_path p) items)"
proof -
  from resolve_ref_same[OF assms(4)] assms(1,2)
  have a1: "type a1 = tree" "path a1 = Some p" by simp_all
  have loop: "tree_loop a1 items ([], 0, []) =
      (map (mkFile a1) (filter (under_path p) items), length (filter (under_path p) items),
       [1..<Suc (length (filter (under_path p) items))])"
    using tree_loop_no_exact[OF a1(2) assms(3,7), of "[]" 0 "[]"] by simp
  from assms(1,2) have "\<not> (type a = blob \<and> truthy (path a))" by simp
  from getContents_listing[OF this assms(4,5,6) loop]
  have 1: "getContents pf enc a s =
           (Inr (a1, map (mkFile a1) (filter (under_path p) items),
                 [1..<Suc (length (filter (under_path p) items))]), s2)" .
  have 2: "\<forall>i\<in>set (filter (under_path p) items).
               file_path (mkFile a1 i) = (p @ ''/'') @ getRelativePath (file_path (mkFile a1 i)) a1"
    using relative_under_path(2)[OF a1 assms(3)] by (simp add: mkFile_def)
  have 3: "relativePaths (map (mkFile a1) (filter (under_path p) items)) a1 =
             map (\<lambda>i. drop (length (p @ ''/'')) (item_path i)) (filter (under_path p) items)"
    using relative_under_path(1)[OF a1 assms(3)] by (simp add: relativePaths_def mkFile_def)
  from 1 2 3 show ?thesis by blast
qed

lemmas client_eval =
  getContents_def resolve_ref_def getTreeContents_def getDefaultBranch_def client_fetch_def
  do_fetch_def enrich_def buildTreeApiUrl_def buildContentsApiUrl_def getRawUrl_def
  repoApiUrl_def mkFile_def truthy_def or_else_def startsWith_def

lemmas example_eval =
  example_platform_def ok_json_def ok_bytes_def not_found_def listing_of_def file_item_def
  dir_item_def start_def folder_url_def folder_URL_def folder_address_def repo_listing_def
  repo_platform_def file_of_def file_address_def blob_only_address_def root_address_def
  listing_platform_def missing_platform_def root_url_def root_URL_def


text \<open>Scenario B, from the URL to the relative paths.\<close>

theorem getContents_folder_witness:
  "parseGitHubUrl folder_URL folder_url = Inr folder_address
   \<and> fst (getContents repo_platform Some folder_address start)
       = Inr (folder_address, [file_of ''src/a.ts'', file_of ''src/sub/b.ts''], [1, 2])
   \<and> relativePaths [file_of ''src/a.ts'', file_of ''src/sub/b.ts''] folder_address
       = [''a.ts'', ''sub/b.ts'']"
proof -
  have p: "parseGitHubUrl folder_URL folder_url = Inr folder_address"
    by (simp add: parse_eval example_eval)
  have h: "type folder_address = tree" "path folder_address = Some ''src''" "''src'' \<noteq> []"
    "resolve_ref repo_platform folder_address start = (Inr folder_address, start)"
    by (simp_all add: folder_address_def resolve_ref_def truthy_def)
  have f: "client_fetch repo_platform (buildTreeApiUrl folder_address) start =
      (Inr \<lparr>data_default_branch = None, data_size = None, data_sha = None,
             data_tree = Some repo_listing\<rparr>,
       \<lparr>world = [], requests = [''https://api.github.com/repos/o/r/git/trees/main?recursive=1''],
        fs_calls = []\<rparr>)"
    by (simp add: client_eval example_eval)
  have n: "\<forall>i\<in>set repo_listing. \<not> exact_path ''src'' i"
    by (simp add: repo_listing_def exact_path_def file_item_def dir_item_def)
  have u: "filter (under_path ''src'') repo_listing = [file_item ''src/a.ts'', file_item ''src/sub/b.ts'']"
    by (simp add: repo_listing_def under_path_def file_item_def dir_item_def startsWith_def)
  have m: "map (mkFile folder_address) [file_item ''src/a.ts'', file_item ''src/sub/b.ts'']
      = [file_of ''src/a.ts'', file_of ''src/sub/b.ts'']"
    by (simp add: mkFile_def folder_address_def file_item_def file_of_def getRawUrl_def or_else_def)
  from getContents_folder[OF h f _ n, of Some] u m p show ?thesis
    by (simp add: file_item_def)
qed






lemma getContents_blob:
  assumes "type a = blob" and "truthy (path a)" and "resolve_ref pf a s = (Inr a1, s1)"
  shows "getContents pf enc a s =
           (Inr (a1, [fst (enrich pf enc a1
                        \<lparr>file_path = the (path a1), downloadUrl = getRawUrl a1 (the (path a1)),
                         file_size = 0, file_sha = Some []\<rparr> s1)], [1]),
            snd (enrich pf enc a1
                   \<lparr>file_path = the (path a1), downloadUrl = getRawUrl a1 (the (path a1)),
                    file_size = 0, file_sha = Some []\<rparr> s1))"
  using assms resolve_ref_same[OF assms(3)]
  by (simp add: getContents_def split: prod.splits)

lemma enrich_keeps:
  "file_path (fst (enrich pf enc a file s)) = file_path file
   \<and> downloadUrl (fst (enrich pf enc a file s)) = downloadUrl file"
  by (simp add: enrich_def split: option.splits prod.splits sum.splits)

lemma enrich_failed:
  "enrichment_failed pf enc a s \<Longrightarrow> fst (enrich pf enc a file s) = file"
  by (auto simp: enrich_def enrichment_failed_def split: option.splits prod.splits sum.splits)

text \<open>
  C4, as the code has it. For an address of type \<^verbatim>\<open>blob\<close> with a path, discovery returns
  exactly one descriptor, whatever the platform answers, once the reference is known
  (\<open>resolve_ref\<close> gives the address back when it has a reference).
\<close>

theorem getContents_blob_single:
  assumes "type a = blob" and "truthy (path a)" and "resolve_ref pf a s = (Inr a1, s1)"
  shows "\<exists>file s2. getContents pf enc a s = (Inr (a1, [file], [1]), s2)"
  using getContents_blob[OF assms] by blast

theorem getContents_blob_single_witness:
  "type file_address = blob \<and> truthy (path file_address)
   \<and> resolve_ref repo_platform file_address start = (Inr file_address, start)
   \<and> (\<exists>file s2. getContents repo_platform Some file_address start
                    = (Inr (file_address, [file], [1]), s2))"
proof -
  have h: "type file_address = blob" "truthy (path file_address)"
    "resolve_ref repo_platform file_address start = (Inr file_address, start)"
    by (simp_all add: file_address_def resolve_ref_def truthy_def)
  from getContents_blob_single[OF h] h show ?thesis by simp
qed

text \<open>
  C4 as the specification words it covers an address of type \<^verbatim>\<open>blob\<close> without a path,
  too. The test in \<open>getContents\<close> is \<^verbatim>\<open>parsed.type === 'blob' && parsed.path\<close>: such an
  address is discovered through the listing, and here it yields three descriptors.
\<close>

theorem getContents_blob_without_path_counterexample:
  "type blob_only_address = blob
   \<and> fst (getContents repo_platform Some blob_only_address start)
       = Inr (blob_only_address,
              [file_of ''src/a.ts'', file_of ''src/sub/b.ts'', file_of ''other/c.ts''],
              [1, 2, 3])"
  by (simp add: client_eval example_eval)

text \<open>
  C10. For an address of type \<^verbatim>\<open>blob\<close> with a reference and a path, discovery always
  returns: one descriptor, with the path of the address and the download URL built from
  the address; when the metadata request fails, its size is 0 and its hash is empty.
\<close>

theorem getContents_blob_never_fails:
  assumes "type a = blob" and "truthy (ref a)" and "truthy (path a)"
  shows "\<exists>file s'. getContents pf enc a s = (Inr (a, [file], [1]), s')
           \<and> file_path file = the (path a)
           \<and> downloadUrl file = getRawUrl a (the (path a))
           \<and> (enrichment_failed pf enc a s \<longrightarrow> file_size file = 0 \<and> file_sha file = Some [])"
proof -
  let ?file = "\<lparr>file_path = the (path a), downloadUrl = getRawUrl a (the (path a)),
                file_size = 0, file_sha = Some []\<rparr>"
  from assms(2) have r: "resolve_ref pf a s = (Inr a, s)" by (rule resolve_ref_known)
  note g = getContents_blob[OF assms(1,3) r, of enc]
  have k: "file_path (fst (enrich pf enc a ?file s)) = the (path a)"
    "downloadUrl (fst (enrich pf enc a ?file s)) = getRawUrl a (the (path a))"
    using enrich_keeps[of pf enc a ?file s] by simp_all
  have f: "enrichment_failed pf enc a s \<longrightarrow>
      file_size (fst (enrich pf enc a ?file s)) = 0 \<and> file_sha (fst (enrich pf enc a ?file s)) = Some []"
    by (simp add: enrich_failed)
  from g k f show ?thesis by blast
qed

theorem getContents_blob_never_fails_witness:
  "type file_address = blob \<and> truthy (ref file_address) \<and> truthy (path file_address)
   \<and> enrichment_failed missing_platform Some file_address start
   \<and> fst (getContents missing_platform Some file_address start)
       = Inr (file_address,
              [\<lparr>file_path = ''docs/guide/intro.md'',
                downloadUrl = ''https://raw.githubusercontent.com/o/r/main/docs/guide/intro.md'',
                file_size = 0, file_sha = Some []\<rparr>],
              [1])"
proof -
  have h: "type file_address = blob" "truthy (ref file_address)" "truthy (path file_address)"
    by (simp_all add: file_address_def truthy_def)
  have e: "enrichment_failed missing_platform Some file_address start"
    by (simp add: enrichment_failed_def client_eval example_eval missing_platform_def)
  have u: "getRawUrl file_address (the (path file_address))
      = ''https://raw.githubusercontent.com/o/r/main/docs/guide/intro.md''"
    "the (path file_address) = ''docs/guide/intro.md''"
    by (simp_all add: getRawUrl_def file_address_def or_else_def)
  from getContents_blob_never_fails[OF h, of missing_platform Some start] e u
  obtain f0 s' where g: "getContents missing_platform Some file_address start
      = (Inr (file_address, [f0], [1]), s')"
    and f: "file_path f0 = ''docs/guide/intro.md''"
      "downloadUrl f0 = ''https://raw.githubusercontent.com/o/r/main/docs/guide/intro.md''"
      "file_size f0 = 0" "file_sha f0 = Some []"
    by auto
  from f have "f0 = \<lparr>file_path = ''docs/guide/intro.md'',
                downloadUrl = ''https://raw.githubusercontent.com/o/r/main/docs/guide/intro.md'',
                file_size = 0, file_sha = Some []\<rparr>"
    by (intro GitHubFile.equality) simp_all
  with g h e show ?thesis by simp
qed

lemma requests_resolve_ref:
  "requests (snd (resolve_ref pf a s)) =
     requests s @ (if truthy (ref a) then [] else [repoApiUrl (owner a) (repo a)])"
  using requests_client_fetch[of pf "repoApiUrl (owner a) (repo a)" s]
  by (auto simp: resolve_ref_def getDefaultBranch_def split: prod.splits sum.splits)

lemma requests_getTreeContents:
  "requests (snd (getTreeContents pf a s)) = requests s @ [buildTreeApiUrl a]"
  using requests_client_fetch[of pf "buildTreeApiUrl a" s]
  by (auto simp: getTreeContents_def split: prod.splits sum.splits option.splits)

lemma requests_enrich:
  "requests (snd (enrich pf enc a file s)) =
     requests s @ (case buildContentsApiUrl enc a of None \<Rightarrow> [] | Some url \<Rightarrow> [url])"
proof (cases "buildContentsApiUrl enc a")
  case None
  then show ?thesis by (simp add: enrich_def)
next
  case (Some url)
  with requests_client_fetch[of pf url s] show ?thesis
    by (auto simp: enrich_def split: prod.splits sum.splits)
qed

lemma buildTreeApiUrl_not_repo: "buildTreeApiUrl a \<noteq> repoApiUrl (owner a) (repo a)"
  by (simp add: buildTreeApiUrl_def repoApiUrl_def)

lemma buildContentsApiUrl_not_repo:
  "buildContentsApiUrl enc a = Some url \<Longrightarrow> url \<noteq> repoApiUrl (owner a) (repo a)"
  by (auto simp: buildContentsApiUrl_def repoApiUrl_def Let_def split: if_splits option.splits)

lemma requests_getContents_known:
  assumes "truthy (ref a)"
  shows "repoApiUrl (owner a) (repo a) \<notin> set (new_requests s (snd (getContents pf enc a s)))"
proof (cases "type a = blob \<and> truthy (path a)")
  case True
  have r: "resolve_ref pf a s = (Inr a, s)" using assms by (rule resolve_ref_known)
  from True have b: "type a = blob" "truthy (path a)" by simp_all
  show ?thesis
    using buildContentsApiUrl_not_repo[of enc a "repoApiUrl (owner a) (repo a)"]
    by (auto simp: getContents_blob[OF b r] requests_enrich new_requests_def split: option.splits)
next
  case False
  have r: "resolve_ref pf a s = (Inr a, s)" using assms by (rule resolve_ref_known)
  have "requests (snd (getContents pf enc a s)) = requests (snd (getTreeContents pf a s))"
    using False r by (auto simp: getContents_def split: prod.splits sum.splits)
  then show ?thesis
    using buildTreeApiUrl_not_repo[of a]
    by (simp add: requests_getTreeContents new_requests_def)
qed

lemma requests_getContents_unknown:
  assumes "\<not> truthy (ref a)"
  shows "repoApiUrl (owner a) (repo a) \<in> set (new_requests s (snd (getContents pf enc a s)))"
proof -
  obtain r s1 where rr: "resolve_ref pf a s = (r, s1)" by (cases "resolve_ref pf a s")
  with requests_resolve_ref[of pf a s] assms
  have s1: "requests s1 = requests s @ [repoApiUrl (owner a) (repo a)]" by simp
  have "\<exists>rs. requests (snd (getContents pf enc a s)) = requests s1 @ rs"
  proof (cases r)
    case (Inl e)
    with rr show ?thesis by (simp add: getContents_def)
  next
    case (Inr a1)
    show ?thesis
    proof (cases "type a1 = blob \<and> truthy (path a1)")
      case True
      with resolve_ref_same[of pf a s a1 s1] rr Inr
      have b: "type a = blob" "truthy (path a)" "resolve_ref pf a s = (Inr a1, s1)" by simp_all
      show ?thesis by (simp add: getContents_blob[OF b] requests_enrich)
    next
      case False
      have "requests (snd (getContents pf enc a s)) = requests (snd (getTreeContents pf a1 s1))"
        using False rr Inr by (auto simp: getContents_def split: prod.splits sum.splits)
      then show ?thesis by (simp add: requests_getTreeContents)
    qed
  qed
  with s1 show ?thesis by (auto simp: new_requests_def)
qed

text \<open>
  C9. An address that \<open>parseGitHubUrl\<close> returns has type \<^verbatim>\<open>root\<close> exactly when it has
  neither reference nor path; with type \<^verbatim>\<open>tree\<close> or \<^verbatim>\<open>blob\<close> it has a reference.
  So discovery requests the repository metadata, for the default branch, exactly for
  the addresses of type \<^verbatim>\<open>root\<close>.
\<close>

theorem parsed_root_iff_no_ref:
  assumes "parseGitHubUrl new_URL url = Inr a"
  shows "(type a = root \<longleftrightarrow> ref a = None \<and> path a = None)
         \<and> (type a \<noteq> root \<longrightarrow> truthy (ref a))
         \<and> (repoApiUrl (owner a) (repo a) \<in> set (new_requests s (snd (getContents pf enc a s)))
              \<longleftrightarrow> type a = root)"
proof -
  from assms obtain u where
    cases: "(length (pathParts_of u) = 2 \<and> type a = root \<and> ref a = None \<and> path a = None)
       \<or> (4 \<le> length (pathParts_of u) \<and> type a \<noteq> root
           \<and> (pathParts_of u ! 2 = ''tree'' \<and> type a = tree
               \<or> pathParts_of u ! 2 = ''blob'' \<and> type a = blob)
           \<and> ref a = Some (pathParts_of u ! 3) \<and> path a = path_of_parts (pathParts_of u))"
    by (rule parseGitHubUrl_Inr)
  have t: "type a \<noteq> root \<longrightarrow> truthy (ref a)"
  proof
    assume "type a \<noteq> root"
    with cases have 4: "3 < length (pathParts_of u)" and r: "ref a = Some (pathParts_of u ! 3)"
      by auto
    from pathParts_nth_nonempty[OF 4] r show "truthy (ref a)" by (simp add: truthy_def)
  qed
  have 1: "type a = root \<longleftrightarrow> ref a = None \<and> path a = None"
    using cases by auto
  have 3: "repoApiUrl (owner a) (repo a) \<in> set (new_requests s (snd (getContents pf enc a s)))
              \<longleftrightarrow> type a = root"
  proof (cases "type a = root")
    case True
    with 1 have "\<not> truthy (ref a)" by (simp add: truthy_def)
    from requests_getContents_unknown[OF this] True show ?thesis by simp
  next
    case False
    with t have "truthy (ref a)" by simp
    from requests_getContents_known[OF this] False show ?thesis by simp
  qed
  from 1 t 3 show ?thesis by blast
qed

theorem parsed_root_iff_no_ref_witness:
  "parseGitHubUrl root_URL root_url = Inr root_address
   \<and> type root_address = root \<and> ref root_address = None \<and> path root_address = None
   \<and> repoApiUrl ''o'' ''r''
       \<in> set (new_requests start (snd (getContents repo_platform Some root_address start)))
   \<and> parseGitHubUrl folder_URL folder_url = Inr folder_address
   \<and> type folder_address = tree \<and> truthy (ref folder_address)
   \<and> repoApiUrl ''o'' ''r''
       \<notin> set (new_requests start (snd (getContents repo_platform Some folder_address start)))"
proof -
  have r: "parseGitHubUrl root_URL root_url = Inr root_address"
    by (simp add: parse_eval example_eval root_url_def root_URL_def)
  have f: "parseGitHubUrl folder_URL folder_url = Inr folder_address"
    by (simp add: parse_eval example_eval)
  have v: "type root_address = root" "owner root_address = ''o''" "repo root_address = ''r''"
    "type folder_address = tree" "owner folder_address = ''o''" "repo folder_address = ''r''"
    by (simp_all add: root_address_def folder_address_def)
  from parsed_root_iff_no_ref[OF r, of start repo_platform Some]
    parsed_root_iff_no_ref[OF f, of start repo_platform Some] r f v
  show ?thesis by simp
qed

section \<open>Properties of materialization\<close>




























text \<open>The runs of the examples, evaluated.\<close>

lemmas dl_eval =
  downloadFiles_def downloadToZip_def zip_to_finalize_def files_step_def zip_step_def
  try_file_def downloadFile_def do_fetch_def do_mkdir_def do_writeFile_def do_wait_def
  do_close_def updateProgress_def catch_error_def init_state_def error_lines_def
  successCount_def getRelativePath_def truthy_def startsWith_def zip_dir_def Let_def

lemmas dl_example_eval =
  example_platform_def ok_bytes_def not_found_def start_def folder_address_def file_of_def
  folder_files_def download_platform_def refusing_platform_def readonly_platform_def
  disk_full_platform_def start_count_def plain_def











lemma dir_readonly:
  "downloadFiles readonly_platform folder_files ''out'' folder_address plain start =
     ([FailedCount 3, FailedFile ''a.ts'' (PlatformError ''EACCES''),
       FailedFile ''sub/b.ts'' (PlatformError ''EACCES''),
       FailedFile ''z.ts'' (PlatformError ''EACCES''), Downloaded 0 ''out''],
      \<lparr>proc = \<lparr>world = [], requests = [],
                fs_calls = [Mkdir ''out'', Mkdir ''out/sub'', Mkdir ''out'']\<rparr>,
       current = 3, downloadedBytes = 0, spinnerIndex = 3,
       errors = [(''a.ts'', PlatformError ''EACCES''), (''sub/b.ts'', PlatformError ''EACCES''),
                 (''z.ts'', PlatformError ''EACCES'')],
       trace = [Progress ''a.ts'' 0, Progress ''sub/b.ts'' 0, Progress ''z.ts'' 0]\<rparr>)"
  by (simp add: dl_eval dl_example_eval)







end
